theory Spec2Isabelle
  imports Complex_Main "HOL-Library.Sublist" "HOL-Library.Multiset"
begin

section \<open>Probability distributions: the two variants of the evaluator\<close>

text \<open>
  The repository holds two scripts that compute probability values of the geometric,
  binomial, Poisson and uniform distributions over a list of input values.

  \<^item> Variant A (\<^verbatim>\<open>Maths_assignment/Assignment 1_Group C.py\<close>) validates its parameters,
    rejects negative input values and delegates the probabilities to \<^verbatim>\<open>scipy.stats\<close>.
  \<^item> Variant B (\<^verbatim>\<open>modified_for_negative_removal.py\<close>) strips the negative input values
    and computes the probabilities by hand.

  Both scripts define functions of the same names; the model suffixes them with \<open>_A\<close> and
  \<open>_B\<close>. The input values are the integers that \<^verbatim>\<open>np.arange(start, end + 1)\<close> yields
  (\<^verbatim>\<open>np.int64\<close>), read as mathematical integers.
\<close>

subsection \<open>Errors\<close>

text \<open>
  Every error the two scripts raise themselves is a \<^verbatim>\<open>ValueError\<close> told apart by its
  message only. The messages are:
  \<^item> \<open>P_not_in_0_1_halfopen\<close>: "The probability of success 'p' must be in the range (0, 1]."
  \<^item> \<open>N_negative\<close>: "The number of trials 'n' must be non-negative."
  \<^item> \<open>P_not_in_0_1_closed\<close>: "The probability of success 'p' must be in the range [0, 1]."
  \<^item> \<open>Mu_negative\<close>: "The mean 'mu' must be non-negative."
  \<^item> \<open>Low_not_below_high\<close>: "The lower bound 'low' must be less than the upper bound 'high'."
  \<^item> \<open>Negative_vals\<close>: "All values in 'vals' must be non-negative."
  \<^item> \<open>All_negative\<close>: "All input values are negative. Cannot compute probabilities."
  \<^item> \<open>Unsupported_name\<close>: "Unsupported distribution name."

  The other constructors of \<open>error\<close> are the exceptions the Python runtime raises:
  a dictionary lookup of a missing key, \<^verbatim>\<open>math.comb\<close> applied to a float, a division
  by zero, and a result or an integer too large for a float.
\<close>

datatype message =
    P_not_in_0_1_halfopen
  | N_negative
  | P_not_in_0_1_closed
  | Mu_negative
  | Low_not_below_high
  | Negative_vals
  | All_negative
  | Unsupported_name

datatype error =
    ValueError message
  | KeyError string
  | TypeError
  | ZeroDivisionError
  | OverflowError

text \<open>
  The error kinds of the specification, as classes of the messages:
  an out-of-range distribution parameter, a rejected input range, an unknown name.
\<close>

definition InvalidParameter :: "error set" where
  "InvalidParameter = ValueError ` {P_not_in_0_1_halfopen, N_negative, P_not_in_0_1_closed,
     Mu_negative, Low_not_below_high}"

definition InvalidInput :: "error set" where
  "InvalidInput = ValueError ` {Negative_vals, All_negative}"

definition UnsupportedDistribution :: "error set" where
  "UnsupportedDistribution = {ValueError Unsupported_name}"

subsection \<open>Floats\<close>

text \<open>
  A Python float is a finite number, an infinity or NaN; \<^verbatim>\<open>float(input())\<close> yields all
  of them. A finite float is read as the real number it denotes. What the model keeps of
  the arithmetic:
  \<^item> the special values, and the order in which every comparison with NaN is false;
  \<^item> overflow: a result at or beyond \<open>overflow_threshold\<close> (the least magnitude that
    rounds to an infinity) is an infinity where Python and numpy return one, and an
    \<^verbatim>\<open>OverflowError\<close> where Python raises one (\<^verbatim>\<open>math.exp\<close>, the conversion of an integer).
  What it leaves out: the rounding of a finite result to the nearest double, underflow
  and the sign of zero. A finite result in the model is the exact real number, so the
  theorems below state nothing that depends on the digits of a rounded result.
\<close>

datatype pyfloat = Finite real | PosInf | NegInf | NaN

definition overflow_threshold :: int where
  "overflow_threshold = 2 ^ 1024 - 2 ^ 970"

definition fin :: "real \<Rightarrow> pyfloat" where
  "fin r = (if real_of_int overflow_threshold \<le> r then PosInf
            else if r \<le> - real_of_int overflow_threshold then NegInf
            else Finite r)"

text \<open>\<open>a <= b\<close> and \<open>a < b\<close>.\<close>

fun fle :: "pyfloat \<Rightarrow> pyfloat \<Rightarrow> bool" where
  "fle NaN _ = False"
| "fle _ NaN = False"
| "fle (Finite a) (Finite b) = (a \<le> b)"
| "fle NegInf _ = True"
| "fle _ PosInf = True"
| "fle _ _ = False"

fun flt :: "pyfloat \<Rightarrow> pyfloat \<Rightarrow> bool" where
  "flt NaN _ = False"
| "flt _ NaN = False"
| "flt (Finite a) (Finite b) = (a < b)"
| "flt PosInf _ = False"
| "flt _ NegInf = False"
| "flt _ _ = True"

text \<open>\<open>- a\<close>, \<open>a - b\<close> and \<open>a * b\<close>.\<close>

fun fneg :: "pyfloat \<Rightarrow> pyfloat" where
  "fneg (Finite a) = Finite (- a)"
| "fneg PosInf = NegInf"
| "fneg NegInf = PosInf"
| "fneg NaN = NaN"

fun fsub :: "pyfloat \<Rightarrow> pyfloat \<Rightarrow> pyfloat" where
  "fsub NaN _ = NaN"
| "fsub _ NaN = NaN"
| "fsub (Finite a) (Finite b) = fin (a - b)"
| "fsub PosInf PosInf = NaN"
| "fsub NegInf NegInf = NaN"
| "fsub PosInf _ = PosInf"
| "fsub NegInf _ = NegInf"
| "fsub _ PosInf = NegInf"
| "fsub _ NegInf = PosInf"

fun fmul :: "pyfloat \<Rightarrow> pyfloat \<Rightarrow> pyfloat" where
  "fmul NaN _ = NaN"
| "fmul _ NaN = NaN"
| "fmul (Finite a) (Finite b) = fin (a * b)"
| "fmul (Finite a) i = (if a = 0 then NaN else if (0 < a) = (i = PosInf) then PosInf else NegInf)"
| "fmul i (Finite b) = (if b = 0 then NaN else if (0 < b) = (i = PosInf) then PosInf else NegInf)"
| "fmul i j = (if i = j then PosInf else NegInf)"

text \<open>
  \<open>b ** k\<close> for a float \<open>b\<close> and an \<^verbatim>\<open>np.int64\<close> exponent \<open>k \<ge> 0\<close>: numpy's power, which
  returns an infinity on overflow and \<open>1\<close> for the exponent \<open>0\<close> whatever the base is.
  Every exponent in Variant B is non-negative where it is evaluated (\<open>x - 1\<close> under
  \<open>x > 0\<close>, \<open>x\<close> and \<open>n - x\<close> under \<open>0 \<le> x \<le> n\<close>, \<open>x\<close> under \<open>x \<ge> 0\<close>).
\<close>

fun fpow :: "pyfloat \<Rightarrow> nat \<Rightarrow> pyfloat" where
  "fpow b 0 = Finite 1"
| "fpow (Finite a) k = fin (a ^ k)"
| "fpow PosInf k = PosInf"
| "fpow NegInf k = (if odd k then NegInf else PosInf)"
| "fpow NaN k = NaN"

text \<open>
  The conversion of a Python integer to a float, as \<^verbatim>\<open>int * float\<close> and
  \<^verbatim>\<open>float / int\<close> do it: \<^verbatim>\<open>OverflowError\<close> when the integer is too large.
\<close>

definition float_of_int :: "int \<Rightarrow> error + pyfloat" where
  "float_of_int k =
     (if overflow_threshold \<le> \<bar>k\<bar> then Inl OverflowError else Inr (Finite (real_of_int k)))"

text \<open>
  \<open>a / d\<close> on numpy floats, which raises nothing. The only divisor in the formulas is a
  converted factorial, never zero; a zero divisor is taken as positive here.
\<close>

fun fdiv :: "pyfloat \<Rightarrow> pyfloat \<Rightarrow> pyfloat" where
  "fdiv NaN _ = NaN"
| "fdiv _ NaN = NaN"
| "fdiv (Finite a) (Finite d) =
     (if d = 0 then (if a = 0 then NaN else if 0 < a then PosInf else NegInf) else fin (a / d))"
| "fdiv (Finite a) _ = Finite 0"
| "fdiv i (Finite d) = (if (0 \<le> d) = (i = PosInf) then PosInf else NegInf)"
| "fdiv _ _ = NaN"

text \<open>\<^verbatim>\<open>math.exp\<close>: \<^verbatim>\<open>OverflowError\<close> when the result is out of range.\<close>

fun math_exp :: "pyfloat \<Rightarrow> error + pyfloat" where
  "math_exp (Finite a) =
     (if real_of_int overflow_threshold \<le> exp a then Inl OverflowError else Inr (Finite (exp a)))"
| "math_exp PosInf = Inr PosInf"
| "math_exp NegInf = Inr (Finite 0)"
| "math_exp NaN = Inr NaN"

text \<open>\<open>1 / d\<close> on Python floats: \<^verbatim>\<open>ZeroDivisionError\<close> when \<open>d\<close> is zero.\<close>

fun one_over :: "pyfloat \<Rightarrow> error + pyfloat" where
  "one_over (Finite d) = (if d = 0 then Inl ZeroDivisionError else Inr (fin (1 / d)))"
| "one_over PosInf = Inr (Finite 0)"
| "one_over NegInf = Inr (Finite 0)"
| "one_over NaN = Inr NaN"

subsection \<open>Parameters and comprehensions\<close>

text \<open>
  The values of the \<^verbatim>\<open>parameters\<close> dictionary are Python numbers: \<^verbatim>\<open>int\<close> (the number of
  trials) or \<^verbatim>\<open>float\<close> (every other parameter), as \<^verbatim>\<open>get_user_input\<close> stores them. An
  \<^verbatim>\<open>int\<close> found where the formulas expect a float is read as the float of the same value.
\<close>

datatype pnum = PInt int | PFloat pyfloat

fun as_float :: "pnum \<Rightarrow> pyfloat" where
  "as_float (PInt k) = Finite (real_of_int k)"
| "as_float (PFloat f) = f"

type_synonym params = "string \<rightharpoonup> pnum"

text \<open>\<^verbatim>\<open>parameters[key]\<close>: a missing key raises \<^verbatim>\<open>KeyError\<close>.\<close>

definition getitem :: "params \<Rightarrow> string \<Rightarrow> error + pnum" where
  "getitem parameters k = (case parameters k of None \<Rightarrow> Inl (KeyError k) | Some v \<Rightarrow> Inr v)"

text \<open>
  A list comprehension whose element expression may raise: the elements are evaluated
  from left to right and the first exception ends the comprehension.
\<close>

fun comprehension :: "('a \<Rightarrow> error + 'b) \<Rightarrow> 'a list \<Rightarrow> error + 'b list" where
  "comprehension f [] = Inr []"
| "comprehension f (x # xs) =
     (case f x of
        Inl e \<Rightarrow> Inl e
      | Inr y \<Rightarrow> (case comprehension f xs of Inl e \<Rightarrow> Inl e | Inr ys \<Rightarrow> Inr (y # ys)))"

text \<open>
  \<^verbatim>\<open>str.lower()\<close>. A string is its UTF-8 bytes; the ASCII capitals are mapped to their
  small letters and every other byte is left alone. (Python maps some non-ASCII characters
  to other non-ASCII characters, and the Kelvin sign to \<open>k\<close>; neither can produce one of the
  four distribution names, which hold no \<open>k\<close>.)
\<close>

definition lower_char :: "char \<Rightarrow> char" where
  "lower_char c =
     (let n = (of_char c :: nat) in if 65 \<le> n \<and> n \<le> 90 then char_of (n + 32) else c)"

definition lower :: "string \<Rightarrow> string" where
  "lower s = map lower_char s"

subsection \<open>Variant A: validation, then \<^verbatim>\<open>scipy.stats\<close>\<close>

text \<open>
  \<^verbatim>\<open>scipy.stats\<close> is a library, not code of the repository: its four functions are
  parameters of the model. \<^verbatim>\<open>geom(p).pmf(vals)\<close> and its siblings work elementwise on
  the array \<open>vals\<close>, which the model writes as a \<open>map\<close> of the function of one value.
  \<open>uniform_pdf\<close> takes \<open>loc\<close> and \<open>scale\<close>.
\<close>

record scipy_stats =
  geom_pmf :: "pyfloat \<Rightarrow> int \<Rightarrow> pyfloat"
  binom_pmf :: "pyfloat \<Rightarrow> pyfloat \<Rightarrow> int \<Rightarrow> pyfloat"
  poisson_pmf :: "pyfloat \<Rightarrow> int \<Rightarrow> pyfloat"
  uniform_pdf :: "pyfloat \<Rightarrow> pyfloat \<Rightarrow> int \<Rightarrow> pyfloat"

text \<open>
  The range checks are comparisons of floats: \<open>p <= 0 or p > 1\<close>, \<open>n < 0\<close>,
  \<open>p < 0 or p > 1\<close>, \<open>mu < 0\<close>, \<open>low >= high\<close>.
\<close>

definition geometric_A :: "scipy_stats \<Rightarrow> pyfloat \<Rightarrow> int list \<Rightarrow> error + pyfloat list" where
  "geometric_A S p vals =
     (if fle p (Finite 0) \<or> flt (Finite 1) p then Inl (ValueError P_not_in_0_1_halfopen)
      else if list_ex (\<lambda>v. v < 0) vals then Inl (ValueError Negative_vals)
      else Inr (map (geom_pmf S p) vals))"

definition binomial_A ::
  "scipy_stats \<Rightarrow> pyfloat \<Rightarrow> pyfloat \<Rightarrow> int list \<Rightarrow> error + pyfloat list" where
  "binomial_A S n p vals =
     (if flt n (Finite 0) then Inl (ValueError N_negative)
      else if flt p (Finite 0) \<or> flt (Finite 1) p then Inl (ValueError P_not_in_0_1_closed)
      else if list_ex (\<lambda>v. v < 0) vals then Inl (ValueError Negative_vals)
      else Inr (map (binom_pmf S n p) vals))"

definition poisson_dist_A :: "scipy_stats \<Rightarrow> pyfloat \<Rightarrow> int list \<Rightarrow> error + pyfloat list" where
  "poisson_dist_A S mu vals =
     (if flt mu (Finite 0) then Inl (ValueError Mu_negative)
      else if list_ex (\<lambda>v. v < 0) vals then Inl (ValueError Negative_vals)
      else Inr (map (poisson_pmf S mu) vals))"

definition uniform_dist_A ::
  "scipy_stats \<Rightarrow> pyfloat \<Rightarrow> pyfloat \<Rightarrow> int list \<Rightarrow> error + pyfloat list" where
  "uniform_dist_A S low high vals =
     (if fle high low then Inl (ValueError Low_not_below_high)
      else Inr (map (uniform_pdf S low (fsub high low)) vals))"

text \<open>
  The dispatcher. The arguments of a call are evaluated from left to right, so a missing
  \<open>n\<close> is reported before a missing \<open>p\<close>.
\<close>

definition get_probability_distribution_A ::
  "scipy_stats \<Rightarrow> string \<Rightarrow> params \<Rightarrow> int list \<Rightarrow> error + pyfloat list" where
  "get_probability_distribution_A S name parameters vals =
     (if list_ex (\<lambda>v. v < 0) vals then Inl (ValueError Negative_vals)
      else let name = lower name in
        if name = ''geometric'' then
          (case getitem parameters ''p'' of Inl e \<Rightarrow> Inl e
           | Inr p \<Rightarrow> geometric_A S (as_float p) vals)
        else if name = ''binomial'' then
          (case getitem parameters ''n'' of Inl e \<Rightarrow> Inl e
           | Inr n \<Rightarrow> (case getitem parameters ''p'' of Inl e \<Rightarrow> Inl e
           | Inr p \<Rightarrow> binomial_A S (as_float n) (as_float p) vals))
        else if name = ''poisson'' then
          (case getitem parameters ''mu'' of Inl e \<Rightarrow> Inl e
           | Inr mu \<Rightarrow> poisson_dist_A S (as_float mu) vals)
        else if name = ''uniform'' then
          (case getitem parameters ''low'' of Inl e \<Rightarrow> Inl e
           | Inr low \<Rightarrow> (case getitem parameters ''high'' of Inl e \<Rightarrow> Inl e
           | Inr high \<Rightarrow> uniform_dist_A S (as_float low) (as_float high) vals))
        else Inl (ValueError Unsupported_name))"

subsection \<open>Variant B: filtering, then the formulas\<close>

text \<open>
  \<open>geometric\<close>: \<^verbatim>\<open>(1 - p)**(x - 1) * p if x > 0 else 0\<close>. The \<open>0\<close> of the other branch is
  the integer \<open>0\<close>, read as the float of the same value.
\<close>

definition geometric_B :: "pyfloat \<Rightarrow> int list \<Rightarrow> pyfloat list" where
  "geometric_B p vals =
     [if x > 0 then fmul (fpow (fsub (Finite 1) p) (nat (x - 1))) p else Finite 0. x \<leftarrow> vals]"

text \<open>
  \<open>binomial\<close>: \<^verbatim>\<open>comb(n, x) * (p**x) * ((1 - p)**(n - x)) if 0 <= x <= n else 0\<close>.
  \<^verbatim>\<open>math.comb(n, x)\<close> raises \<^verbatim>\<open>TypeError\<close> when \<open>n\<close> is a float (the guard itself compares
  any two numbers); its result is an integer of any size, and the product with the float
  \<open>p**x\<close> converts it, which raises \<^verbatim>\<open>OverflowError\<close> when it is too large.
\<close>

definition binomial_B :: "pnum \<Rightarrow> pyfloat \<Rightarrow> int list \<Rightarrow> error + pyfloat list" where
  "binomial_B n p vals =
     comprehension (\<lambda>x.
       if 0 \<le> x \<and> fle (Finite (real_of_int x)) (as_float n) then
         (case n of
            PInt k \<Rightarrow>
              (case float_of_int (int (nat k choose nat x)) of
                 Inl e \<Rightarrow> Inl e
               | Inr c \<Rightarrow> Inr (fmul (fmul c (fpow p (nat x)))
                                  (fpow (fsub (Finite 1) p) (nat (k - x)))))
          | PFloat r \<Rightarrow> Inl TypeError)
       else Inr (Finite 0)) vals"

text \<open>
  \<open>poisson_dist\<close>: \<^verbatim>\<open>(mu**x * exp(-mu)) / factorial(x) if x >= 0 else 0\<close>. \<^verbatim>\<open>exp\<close> is
  \<^verbatim>\<open>math.exp\<close>; the division converts the integer \<^verbatim>\<open>factorial(x)\<close> to a float.
\<close>

definition poisson_dist_B :: "pyfloat \<Rightarrow> int list \<Rightarrow> error + pyfloat list" where
  "poisson_dist_B mu vals =
     comprehension (\<lambda>x.
       if x \<ge> 0 then
         (case math_exp (fneg mu) of
            Inl e \<Rightarrow> Inl e
          | Inr ex \<Rightarrow>
              (case float_of_int (fact (nat x)) of
                 Inl e \<Rightarrow> Inl e
               | Inr d \<Rightarrow> Inr (fdiv (fmul (fpow mu (nat x)) ex) d)))
       else Inr (Finite 0)) vals"

text \<open>
  \<open>uniform_dist\<close>: \<^verbatim>\<open>1 / (high - low) if low <= x <= high else 0\<close>. The comparisons read
  the integer \<open>x\<close> as the float of the same value.
\<close>

definition uniform_dist_B :: "pyfloat \<Rightarrow> pyfloat \<Rightarrow> int list \<Rightarrow> error + pyfloat list" where
  "uniform_dist_B low high vals =
     comprehension (\<lambda>x.
       if fle low (Finite (real_of_int x)) \<and> fle (Finite (real_of_int x)) high
       then one_over (fsub high low)
       else Inr (Finite 0)) vals"

text \<open>
  \<open>filter_values\<close> prints what it removes and what it keeps; the printed lines are the
  first component of its result.
\<close>

datatype line = Removed_negative_values "int list" | Positive_values_after_filtering "int list"

definition filter_values :: "int list \<Rightarrow> line list \<times> (error + int list)" where
  "filter_values vals =
     (let removed_values = [v \<leftarrow> vals. v < 0];
          remaining_values = [v \<leftarrow> vals. v \<ge> 0];
          out = (if removed_values \<noteq> [] then [Removed_negative_values removed_values] else [])
                @ [Positive_values_after_filtering remaining_values]
      in if remaining_values = [] then (out, Inl (ValueError All_negative))
         else (out, Inr remaining_values))"

text \<open>The dispatcher of Variant B compares the name as it is given.\<close>

definition get_probability_distribution_B ::
  "string \<Rightarrow> params \<Rightarrow> int list \<Rightarrow> line list \<times> (error + int list \<times> pyfloat list)" where
  "get_probability_distribution_B name parameters vals =
     (case filter_values vals of
        (out, Inl e) \<Rightarrow> (out, Inl e)
      | (out, Inr filtered_vals) \<Rightarrow> (out,
          (case
            (if name = ''geometric'' then
               (case getitem parameters ''p'' of Inl e \<Rightarrow> Inl e
                | Inr p \<Rightarrow> Inr (geometric_B (as_float p) filtered_vals))
             else if name = ''binomial'' then
               (case getitem parameters ''n'' of Inl e \<Rightarrow> Inl e
                | Inr n \<Rightarrow> (case getitem parameters ''p'' of Inl e \<Rightarrow> Inl e
                | Inr p \<Rightarrow> binomial_B n (as_float p) filtered_vals))
             else if name = ''poisson'' then
               (case getitem parameters ''mu'' of Inl e \<Rightarrow> Inl e
                | Inr mu \<Rightarrow> poisson_dist_B (as_float mu) filtered_vals)
             else if name = ''uniform'' then
               (case getitem parameters ''low'' of Inl e \<Rightarrow> Inl e
                | Inr low \<Rightarrow> (case getitem parameters ''high'' of Inl e \<Rightarrow> Inl e
                | Inr high \<Rightarrow> uniform_dist_B (as_float low) (as_float high) filtered_vals))
             else Inl (ValueError Unsupported_name))
           of Inl e \<Rightarrow> Inl e
            | Inr probabilities \<Rightarrow> Inr (filtered_vals, probabilities))))"

text \<open>The four names that the two dispatchers compare the name with.\<close>

definition kinds :: "string set" where
  "kinds = {''geometric'', ''binomial'', ''poisson'', ''uniform''}"

section \<open>Helper lemmas\<close>

lemma comprehension_Inr_map:
  "(\<And>x. x \<in> set xs \<Longrightarrow> f x = Inr (g x)) \<Longrightarrow> comprehension f xs = Inr (map g xs)"
  by (induction xs) auto

lemma comprehension_length:
  "comprehension f xs = Inr ys \<Longrightarrow> length ys = length xs"
  by (induction xs arbitrary: ys) (auto split: sum.splits)

lemma overflow_threshold_large: "1000 < overflow_threshold"
  by (simp add: overflow_threshold_def)

lemma fpow_Finite: "fpow (Finite a) k = (if k = 0 then Finite 1 else fin (a ^ k))"
  by (cases k) simp_all

lemma fin_small: "\<bar>r\<bar> \<le> 1000 \<Longrightarrow> fin r = Finite r"
  using overflow_threshold_large unfolding fin_def by auto

section \<open>The value policy\<close>

text \<open>
  C1 (filter mode, Variant B). \<open>filter_values\<close> splits the input into the removed values
  and the kept values: both are subsequences of the input (the relative order is
  preserved), the removed values are all negative and the kept values all non-negative, and
  together they are exactly the input, with multiplicities. The printed lines report the
  removed values (when there are any) and the kept values. The call raises the all-negative
  error if and only if nothing is kept, raises no other error, and otherwise returns the
  kept values only.
\<close>

theorem filter_values_partition:
  "let removed = [v \<leftarrow> vals. v < 0]; kept = [v \<leftarrow> vals. v \<ge> 0] in
     subseq removed vals \<and> subseq kept vals \<and>
     mset removed + mset kept = mset vals \<and>
     (\<forall>v \<in> set removed. v < 0) \<and> (\<forall>v \<in> set kept. v \<ge> 0) \<and>
     fst (filter_values vals) =
       (if removed = [] then [] else [Removed_negative_values removed])
       @ [Positive_values_after_filtering kept] \<and>
     (snd (filter_values vals) = Inl (ValueError All_negative) \<longleftrightarrow> kept = []) \<and>
     (kept \<noteq> [] \<longrightarrow> snd (filter_values vals) = Inr kept) \<and>
     (\<forall>e. snd (filter_values vals) = Inl e \<longrightarrow> e = ValueError All_negative \<and> e \<in> InvalidInput)"
proof -
  have part: "mset [v \<leftarrow> vals. v < 0] + mset [v \<leftarrow> vals. v \<ge> 0] = mset vals"
    by (induction vals) auto
  show ?thesis
    unfolding Let_def using part
    by (auto simp: filter_values_def Let_def InvalidInput_def)
qed

text \<open>
  The two examples of the specification: \<open>[-1, 0, 1]\<close> is split into \<open>[-1]\<close> and
  \<open>[0, 1]\<close>, and \<open>[-3, -1]\<close> raises the all-negative error.
\<close>

theorem filter_values_partition_witness:
  "filter_values [-1, 0, 1] =
     ([Removed_negative_values [-1], Positive_values_after_filtering [0, 1]], Inr [0, 1]) \<and>
   filter_values [-3, -1] =
     ([Removed_negative_values [-3, -1], Positive_values_after_filtering []],
      Inl (ValueError All_negative))"
proof -
  let ?xs = "[-1, 0, 1 :: int]" and ?ys = "[-3, -1 :: int]"
  have a: "fst (filter_values ?xs) =
       (if [v \<leftarrow> ?xs. v < 0] = [] then [] else [Removed_negative_values [v \<leftarrow> ?xs. v < 0]])
       @ [Positive_values_after_filtering [v \<leftarrow> ?xs. v \<ge> 0]]"
    and b: "[v \<leftarrow> ?xs. v \<ge> 0] \<noteq> [] \<longrightarrow> snd (filter_values ?xs) = Inr [v \<leftarrow> ?xs. v \<ge> 0]"
    using filter_values_partition [of ?xs] unfolding Let_def by blast+
  have c: "fst (filter_values ?ys) =
       (if [v \<leftarrow> ?ys. v < 0] = [] then [] else [Removed_negative_values [v \<leftarrow> ?ys. v < 0]])
       @ [Positive_values_after_filtering [v \<leftarrow> ?ys. v \<ge> 0]]"
    and d: "snd (filter_values ?ys) = Inl (ValueError All_negative) \<longleftrightarrow> [v \<leftarrow> ?ys. v \<ge> 0] = []"
    using filter_values_partition [of ?ys] unfolding Let_def by blast+
  from a b have "filter_values ?xs =
     ([Removed_negative_values [-1], Positive_values_after_filtering [0, 1]], Inr [0, 1])"
    by (simp add: prod_eq_iff)
  moreover from c d have "filter_values ?ys =
     ([Removed_negative_values [-3, -1], Positive_values_after_filtering []],
      Inl (ValueError All_negative))"
    by (simp add: prod_eq_iff)
  ultimately show ?thesis by simp
qed

text \<open>
  C2 (reject mode, Variant A). When some input value is negative,
  \<open>get_probability_distribution\<close> raises the invalid-input error whatever the name, the
  parameters and the library are: the name is not looked at, no parameter is read (a
  missing key is not reported) and no probability is computed or returned.
\<close>

theorem reject_negative_A:
  "\<exists>v \<in> set vals. v < 0 \<Longrightarrow>
     get_probability_distribution_A S name parameters vals = Inl (ValueError Negative_vals) \<and>
     ValueError Negative_vals \<in> InvalidInput"
  by (simp add: get_probability_distribution_A_def list_ex_iff InvalidInput_def)

text \<open>The example of the specification: binomial with \<open>n = 5\<close>, \<open>p = 0.5\<close> on \<open>[-1, 0, 1]\<close>.\<close>

theorem reject_negative_A_witness:
  "(\<exists>v \<in> set [-1, 0, 1 :: int]. v < 0) \<and>
   (\<forall>S. get_probability_distribution_A S ''binomial''
      [''n'' \<mapsto> PInt 5, ''p'' \<mapsto> PFloat (Finite (1 / 2))] [-1, 0, 1]
      = Inl (ValueError Negative_vals))"
proof -
  have v: "\<exists>v \<in> set [-1, 0, 1 :: int]. v < 0" by simp
  have "get_probability_distribution_A S ''binomial''
      [''n'' \<mapsto> PInt 5, ''p'' \<mapsto> PFloat (Finite (1 / 2))] [-1, 0, 1]
      = Inl (ValueError Negative_vals)" for S
    by (rule reject_negative_A [OF v, THEN conjunct1])
  with v show ?thesis by simp
qed

section \<open>Variant A: parameter validation\<close>

text \<open>
  C3. The specification has each distribution function of Variant A raise an
  invalid-parameter error exactly when a parameter is outside its range. The range checks
  are comparisons, and every comparison with NaN is false: a NaN parameter, which
  \<^verbatim>\<open>float(input())\<close> accepts, is outside every range and passes every check. With
  non-negative values the four functions then hand NaN to \<^verbatim>\<open>scipy.stats\<close> and return its
  result, where the documented ranges and the error messages ask for an error.
\<close>

theorem nan_parameter_accepted_A:
  "geometric_A S NaN [1] = Inr [geom_pmf S NaN 1] \<and>
   binomial_A S (Finite 5) NaN [1] = Inr [binom_pmf S (Finite 5) NaN 1] \<and>
   poisson_dist_A S NaN [1] = Inr [poisson_pmf S NaN 1] \<and>
   uniform_dist_A S NaN (Finite 1) [1] = Inr [uniform_pdf S NaN NaN 1] \<and>
   uniform_dist_A S (Finite 0) NaN [1] = Inr [uniform_pdf S (Finite 0) NaN 1] \<and>
   \<not> (flt (Finite 0) NaN \<and> fle NaN (Finite 1)) \<and> \<not> fle (Finite 0) NaN \<and>
   \<not> flt NaN (Finite 1) \<and> \<not> flt (Finite 0) NaN"
  by (simp add: geometric_A_def binomial_A_def poisson_dist_A_def uniform_dist_A_def)

section \<open>Dispatch by name\<close>

subsection \<open>Auxiliary facts about the two dispatchers\<close>

lemma comprehension_Inl_D:
  "comprehension f xs = Inl e \<Longrightarrow> \<exists>x \<in> set xs. f x = Inl e"
  by (induction xs) (auto split: sum.splits)

lemma binomial_B_not_ValueError: "binomial_B n p vals \<noteq> Inl (ValueError m)"
proof
  assume "binomial_B n p vals = Inl (ValueError m)"
  then obtain x where "(if 0 \<le> x \<and> fle (Finite (real_of_int x)) (as_float n) then
         (case n of
            PInt k \<Rightarrow>
              (case float_of_int (int (nat k choose nat x)) of
                 Inl e \<Rightarrow> Inl e
               | Inr c \<Rightarrow> Inr (fmul (fmul c (fpow p (nat x)))
                                  (fpow (fsub (Finite 1) p) (nat (k - x)))))
          | PFloat r \<Rightarrow> Inl TypeError)
       else Inr (Finite 0)) = Inl (ValueError m)"
    unfolding binomial_B_def by (blast dest: comprehension_Inl_D)
  then show False
    by (auto simp: float_of_int_def split: if_splits pnum.splits sum.splits)
qed

lemma math_exp_not_ValueError: "math_exp a \<noteq> Inl (ValueError m)"
  by (cases a) auto

lemma poisson_dist_B_not_ValueError: "poisson_dist_B mu vals \<noteq> Inl (ValueError m)"
proof
  assume "poisson_dist_B mu vals = Inl (ValueError m)"
  then obtain x where "(if x \<ge> 0 then
         (case math_exp (fneg mu) of
            Inl e \<Rightarrow> Inl e
          | Inr ex \<Rightarrow>
              (case float_of_int (fact (nat x)) of
                 Inl e \<Rightarrow> Inl e
               | Inr d \<Rightarrow> Inr (fdiv (fmul (fpow mu (nat x)) ex) d)))
       else Inr (Finite 0)) = Inl (ValueError m)"
    unfolding poisson_dist_B_def by (blast dest: comprehension_Inl_D)
  then show False
    using math_exp_not_ValueError [of "fneg mu" m]
    by (auto simp: float_of_int_def split: if_splits sum.splits)
qed

lemma one_over_not_ValueError: "one_over d \<noteq> Inl (ValueError m)"
  by (cases d) auto

lemma uniform_dist_B_not_ValueError: "uniform_dist_B low high vals \<noteq> Inl (ValueError m)"
proof
  assume "uniform_dist_B low high vals = Inl (ValueError m)"
  then obtain x where "(if fle low (Finite (real_of_int x)) \<and> fle (Finite (real_of_int x)) high
       then one_over (fsub high low)
       else Inr (Finite 0)) = Inl (ValueError m)"
    unfolding uniform_dist_B_def by (blast dest: comprehension_Inl_D)
  then show False
    using one_over_not_ValueError [of "fsub high low" m] by (auto split: if_splits)
qed

lemma filter_values_snd:
  "snd (filter_values vals) =
     (if [v \<leftarrow> vals. v \<ge> 0] = [] then Inl (ValueError All_negative) else Inr [v \<leftarrow> vals. v \<ge> 0])"
  by (simp add: filter_values_def Let_def)


lemma filter_values_Inl_iff:
  "filter_values vals = (out, Inl e) \<Longrightarrow> e = ValueError All_negative \<and> [v \<leftarrow> vals. v \<ge> 0] = []"
  by (auto simp: filter_values_def Let_def split: if_splits)

lemma kept_empty_iff: "[v \<leftarrow> vals. v \<ge> 0] = [] \<longleftrightarrow> (\<forall>v \<in> set vals. v < (0::int))"
  by (auto simp: filter_empty_conv)

lemma unsupported_A:
  "lower name \<notin> kinds \<Longrightarrow> \<forall>v \<in> set vals. 0 \<le> v \<Longrightarrow>
     get_probability_distribution_A S name parameters vals = Inl (ValueError Unsupported_name)"
  by (auto simp: get_probability_distribution_A_def list_ex_iff Let_def kinds_def)

lemma supported_A:
  assumes "lower name \<in> kinds"
  shows "get_probability_distribution_A S name parameters vals \<noteq> Inl (ValueError Unsupported_name)"
proof -
  consider "lower name = ''geometric''" | "lower name = ''binomial''" | "lower name = ''poisson''"
    | "lower name = ''uniform''" using assms unfolding kinds_def by blast
  then show ?thesis
  proof cases
    case 1 then show ?thesis
      by (auto simp: get_probability_distribution_A_def Let_def getitem_def geometric_A_def
          split: option.splits)
  next
    case 2 then show ?thesis
      by (auto simp: get_probability_distribution_A_def Let_def getitem_def binomial_A_def
          split: option.splits)
  next
    case 3 then show ?thesis
      by (auto simp: get_probability_distribution_A_def Let_def getitem_def poisson_dist_A_def
          split: option.splits)
  next
    case 4 then show ?thesis
      by (auto simp: get_probability_distribution_A_def Let_def getitem_def uniform_dist_A_def
          split: option.splits)
  qed
qed

lemma unsupported_B:
  assumes "name \<notin> kinds" "\<exists>v \<in> set vals. 0 \<le> v"
  shows "snd (get_probability_distribution_B name parameters vals) = Inl (ValueError Unsupported_name)"
proof -
  obtain out where fv: "filter_values vals = (out, Inr [v \<leftarrow> vals. v \<ge> 0])"
    using assms(2) by (auto simp: filter_values_def Let_def filter_empty_conv)
  show ?thesis using assms(1) unfolding get_probability_distribution_B_def fv kinds_def by simp
qed

lemma supported_B:
  assumes "name \<in> kinds"
  shows "snd (get_probability_distribution_B name parameters vals) \<noteq> Inl (ValueError Unsupported_name)"
proof (cases "filter_values vals")
  case (Pair out r)
  show ?thesis
  proof (cases r)
    case (Inl e)
    with Pair have "e = ValueError All_negative" by (auto dest: filter_values_Inl_iff)
    with Pair Inl show ?thesis by (simp add: get_probability_distribution_B_def)
  next
    case (Inr fv)
    consider "name = ''geometric''" | "name = ''binomial''" | "name = ''poisson''"
      | "name = ''uniform''" using assms unfolding kinds_def by blast
    then show ?thesis
    proof cases
      case 1 with Pair Inr show ?thesis
        by (auto simp: get_probability_distribution_B_def getitem_def split: option.splits)
    next
      case 2 with Pair Inr show ?thesis
        using binomial_B_not_ValueError
        by (auto simp: get_probability_distribution_B_def getitem_def split: option.splits sum.splits)
    next
      case 3 with Pair Inr show ?thesis
        using poisson_dist_B_not_ValueError
        by (auto simp: get_probability_distribution_B_def getitem_def split: option.splits sum.splits)
    next
      case 4 with Pair Inr show ?thesis
        using uniform_dist_B_not_ValueError
        by (auto simp: get_probability_distribution_B_def getitem_def split: option.splits sum.splits)
    qed
  qed
qed

subsection \<open>Case sensitivity and unsupported names\<close>

text \<open>
  C4, as the specification states it: the dispatcher of both variants selects the
  evaluator case-insensitively. Variant B's dispatcher does not: it compares the name as
  given, so \<open>Geometric\<close> is unsupported there while \<open>geometric\<close> is evaluated.
\<close>

theorem dispatch_case_sensitive_B_counterexample:
  "snd (get_probability_distribution_B ''Geometric'' [''p'' \<mapsto> PFloat (Finite (1 / 2))] [1])
     = Inl (ValueError Unsupported_name) \<and>
   snd (get_probability_distribution_B ''geometric'' [''p'' \<mapsto> PFloat (Finite (1 / 2))] [1])
     = Inr ([1], [Finite (1 / 2)])"
  by (simp add: get_probability_distribution_B_def filter_values_def getitem_def geometric_B_def
      Let_def fin_small)

text \<open>
  C4, amended. Variant A's dispatcher depends on the name only through its lower-case
  form, and on a list without negative values it raises the unsupported-distribution error
  exactly when the lower-case name is none of the four kinds. Variant B's dispatcher
  compares the name exactly as given (its caller lower-cases what the user types), and on
  a list with at least one non-negative value it raises the unsupported-distribution error
  exactly when the name is none of the four lower-case kinds.
\<close>

theorem dispatch_by_name:
  "(lower name = lower name' \<longrightarrow>
      get_probability_distribution_A S name parameters vals =
      get_probability_distribution_A S name' parameters vals) \<and>
   ((\<forall>v \<in> set vals. 0 \<le> v) \<longrightarrow>
      (get_probability_distribution_A S name parameters vals = Inl (ValueError Unsupported_name)
       \<longleftrightarrow> lower name \<notin> kinds)) \<and>
   ((\<exists>v \<in> set vals. 0 \<le> v) \<longrightarrow>
      (snd (get_probability_distribution_B name parameters vals) = Inl (ValueError Unsupported_name)
       \<longleftrightarrow> name \<notin> kinds)) \<and>
   ValueError Unsupported_name \<in> UnsupportedDistribution"
proof -
  have a: "lower name = lower name' \<longrightarrow>
      get_probability_distribution_A S name parameters vals =
      get_probability_distribution_A S name' parameters vals"
    by (simp add: get_probability_distribution_A_def)
  have b: "(\<forall>v \<in> set vals. 0 \<le> v) \<longrightarrow>
      (get_probability_distribution_A S name parameters vals = Inl (ValueError Unsupported_name)
       \<longleftrightarrow> lower name \<notin> kinds)"
    using unsupported_A [of name vals S parameters] supported_A [of name S parameters vals]
    by blast
  have c: "(\<exists>v \<in> set vals. 0 \<le> v) \<longrightarrow>
      (snd (get_probability_distribution_B name parameters vals) = Inl (ValueError Unsupported_name)
       \<longleftrightarrow> name \<notin> kinds)"
    using unsupported_B [of name vals parameters] supported_B [of name parameters vals]
    by blast
  have d: "ValueError Unsupported_name \<in> UnsupportedDistribution"
    by (simp add: UnsupportedDistribution_def)
  show ?thesis by (rule conjI [OF a conjI [OF b conjI [OF c d]]])
qed

text \<open>
  A mixed-case name in Variant A, and the example of the specification: \<open>gaussian\<close>
  on \<open>[0]\<close> with no parameters is unsupported in both variants.
\<close>

theorem dispatch_by_name_witness:
  "(\<forall>S. get_probability_distribution_A S ''BiNoMiAl''
        [''n'' \<mapsto> PInt 5, ''p'' \<mapsto> PFloat (Finite (1 / 2))] [0, 1]
      = get_probability_distribution_A S ''binomial''
        [''n'' \<mapsto> PInt 5, ''p'' \<mapsto> PFloat (Finite (1 / 2))] [0, 1]) \<and>
   (\<forall>S. get_probability_distribution_A S ''gaussian'' Map.empty [0]
      = Inl (ValueError Unsupported_name)) \<and>
   snd (get_probability_distribution_B ''gaussian'' Map.empty [0]) = Inl (ValueError Unsupported_name)"
proof -
  have l: "lower ''BiNoMiAl'' = lower ''binomial''" "lower ''gaussian'' = ''gaussian''"
    by code_simp+
  have n: "lower ''gaussian'' \<notin> kinds" "''gaussian'' \<notin> kinds"
    by (simp_all add: l kinds_def)
  have v: "\<forall>v \<in> set [0 :: int]. 0 \<le> v" "\<exists>v \<in> set [0 :: int]. 0 \<le> v" by simp_all
  have a: "get_probability_distribution_A S ''BiNoMiAl''
        [''n'' \<mapsto> PInt 5, ''p'' \<mapsto> PFloat (Finite (1 / 2))] [0, 1]
     = get_probability_distribution_A S ''binomial''
        [''n'' \<mapsto> PInt 5, ''p'' \<mapsto> PFloat (Finite (1 / 2))] [0, 1]" for S
    by (rule dispatch_by_name [of "''BiNoMiAl''" "''binomial''" S
        "[''n'' \<mapsto> PInt 5, ''p'' \<mapsto> PFloat (Finite (1 / 2))]" "[0, 1]",
        THEN conjunct1, THEN mp, OF l(1)])
  note t2 = dispatch_by_name [of "''gaussian''" "''gaussian''" _ Map.empty "[0]"]
  have b: "get_probability_distribution_A S ''gaussian'' Map.empty [0]
     = Inl (ValueError Unsupported_name)" for S
    using t2 [of S, THEN conjunct2, THEN conjunct1, THEN mp, OF v(1)] n(1) by simp
  have c: "snd (get_probability_distribution_B ''gaussian'' Map.empty [0])
     = Inl (ValueError Unsupported_name)"
    using t2 [THEN conjunct2, THEN conjunct2, THEN conjunct1, THEN mp, OF v(2)] n(2) by simp
  from a b c show ?thesis by simp
qed

subsection \<open>Filtering comes before dispatch\<close>

text \<open>
  C10. In Variant B the values are filtered before the name is looked at: when every
  input value is negative, \<open>get_probability_distribution\<close> raises the all-negative
  invalid-input error whatever the name is, supported or not. So the
  unsupported-distribution error can only come out when some input value is non-negative.
\<close>

theorem filter_before_dispatch_B:
  "((\<forall>v \<in> set vals. v < 0) \<longrightarrow>
      snd (get_probability_distribution_B name parameters vals) = Inl (ValueError All_negative)) \<and>
   (snd (get_probability_distribution_B name parameters vals) = Inl (ValueError Unsupported_name)
      \<longrightarrow> (\<exists>v \<in> set vals. 0 \<le> v)) \<and>
   ValueError All_negative \<in> InvalidInput"
proof -
  have a: "snd (get_probability_distribution_B name parameters vals) = Inl (ValueError All_negative)"
    if "\<forall>v \<in> set vals. v < 0"
  proof -
    from that have "[v \<leftarrow> vals. v \<ge> 0] = []" by (simp add: kept_empty_iff)
    then obtain out where "filter_values vals = (out, Inl (ValueError All_negative))"
      by (simp add: filter_values_def Let_def)
    then show ?thesis by (simp add: get_probability_distribution_B_def)
  qed
  have b: "\<exists>v \<in> set vals. 0 \<le> v"
    if "snd (get_probability_distribution_B name parameters vals) = Inl (ValueError Unsupported_name)"
  proof (rule ccontr)
    assume "\<not> (\<exists>v \<in> set vals. 0 \<le> v)"
    then have "\<forall>v \<in> set vals. v < 0" by auto
    from a [OF this] that show False by simp
  qed
  have c: "ValueError All_negative \<in> InvalidInput" by (simp add: InvalidInput_def)
  from a b c show ?thesis by blast
qed

text \<open>
  The unsupported name \<open>gaussian\<close>: all-negative on \<open>[-3, -1]\<close>, unsupported on
  \<open>[-3, 2]\<close>.
\<close>

theorem filter_before_dispatch_B_witness:
  "list_all (\<lambda>v. v < 0) [-3, -1 :: int] \<and>
   snd (get_probability_distribution_B ''gaussian'' Map.empty [-3, -1]) = Inl (ValueError All_negative) \<and>
   snd (get_probability_distribution_B ''gaussian'' Map.empty [-3, 2]) = Inl (ValueError Unsupported_name) \<and>
   (\<exists>v \<in> set [-3, 2 :: int]. 0 \<le> v)"
proof -
  have h: "\<forall>v \<in> set [-3, -1 :: int]. v < 0" by simp
  have u: "snd (get_probability_distribution_B ''gaussian'' Map.empty [-3, 2]) = Inl (ValueError Unsupported_name)"
    by (simp add: get_probability_distribution_B_def filter_values_def Let_def)
  have l: "list_all (\<lambda>v. v < 0) [-3, -1 :: int]" by simp
  show ?thesis
    using filter_before_dispatch_B [of "[-3, -1]" "''gaussian''" Map.empty]
      filter_before_dispatch_B [of "[-3, 2]" "''gaussian''" Map.empty] h u l
    by blast
qed

section \<open>The result pairs values with probabilities\<close>






section \<open>Variant B: parameters out of range\<close>

lemma valueerror_B:
  assumes "snd (get_probability_distribution_B name parameters vals) = Inl (ValueError m)"
  shows "m = All_negative \<or> m = Unsupported_name"
proof (cases "filter_values vals")
  case (Pair out r)
  show ?thesis
  proof (cases r)
    case (Inl e)
    with Pair have "e = ValueError All_negative" by (auto dest: filter_values_Inl_iff)
    with Pair Inl assms show ?thesis by (simp add: get_probability_distribution_B_def)
  next
    case (Inr fv)
    consider "name = ''geometric''" | "name = ''binomial''" | "name = ''poisson''"
      | "name = ''uniform''" | "name \<notin> kinds" unfolding kinds_def by blast
    then show ?thesis
    proof cases
      case 1 with Pair Inr assms show ?thesis
        by (auto simp: get_probability_distribution_B_def getitem_def split: option.splits)
    next
      case 2 with Pair Inr assms show ?thesis
        using binomial_B_not_ValueError
        by (auto simp: get_probability_distribution_B_def getitem_def split: option.splits sum.splits)
    next
      case 3 with Pair Inr assms show ?thesis
        using poisson_dist_B_not_ValueError
        by (auto simp: get_probability_distribution_B_def getitem_def split: option.splits sum.splits)
    next
      case 4 with Pair Inr assms show ?thesis
        using uniform_dist_B_not_ValueError
        by (auto simp: get_probability_distribution_B_def getitem_def split: option.splits sum.splits)
    next
      case 5 with Pair Inr assms show ?thesis
        by (auto simp: get_probability_distribution_B_def kinds_def)
    qed
  qed
qed

lemma binomial_B_negative_n:
  "n < 0 \<Longrightarrow> binomial_B (PInt n) p vals = Inr (replicate (length vals) (Finite 0))"
  unfolding binomial_B_def
  by (induction vals) auto

lemma fle_fle_not_flt: "fle low (Finite a) \<Longrightarrow> fle (Finite a) high \<Longrightarrow> \<not> flt high low"
  by (cases low; cases high) auto

lemma uniform_dist_B_reversed:
  "flt high low \<Longrightarrow> uniform_dist_B low high vals = Inr (replicate (length vals) (Finite 0))"
  unfolding uniform_dist_B_def
  by (induction vals) (auto dest: fle_fle_not_flt)

lemma uniform_dist_B_degenerate:
  "uniform_dist_B (Finite r) (Finite r) vals =
     (if \<exists>x \<in> set vals. real_of_int x = r then Inl ZeroDivisionError
      else Inr (replicate (length vals) (Finite 0)))"
  unfolding uniform_dist_B_def
  by (induction vals) (auto simp: fin_small)

lemma exp_2000_overflows: "real_of_int overflow_threshold \<le> exp 2000"
proof -
  have "real_of_int overflow_threshold \<le> 2 ^ 2000"
    by (simp add: overflow_threshold_def)
  also have "(2 :: real) ^ 2000 \<le> exp 1 ^ 2000"
    by (rule power_mono) (use exp_ge_add_one_self [of 1] in simp_all)
  also have "\<dots> = exp 2000"
    using exp_of_nat_mult [of 2000 "1 :: real"] by simp
  finally show ?thesis .
qed

text \<open>
  C5, as the specification states it: for a kind other than uniform and a parameter
  outside its range, evaluation completes and every returned probability is \<open>0\<close>. The
  geometric formula with \<open>p = 2\<close>, outside \<open>(0, 1]\<close>, returns \<open>2\<close> at \<open>x = 1\<close>.
\<close>

theorem out_of_range_not_zero_B_counterexample:
  "geometric_B (Finite 2) [1] = [Finite 2] \<and> geometric_B (Finite 2) [1] \<noteq> [Finite 0]"
  by (simp add: geometric_B_def fin_small)

text \<open>
  C5, amended. Variant B validates no parameter range: whatever the name, the parameters
  and the values are, \<open>get_probability_distribution\<close> raises no invalid-parameter error.
  Its formulas return \<open>0\<close> for every value when the binomial's \<open>n\<close> is negative and when
  the uniform's \<open>high\<close> is below \<open>low\<close>, and the uniform formula divides by zero when
  \<open>high\<close> equals \<open>low\<close> and one of the values is equal to them.
\<close>

theorem no_parameter_validation_B:
  "snd (get_probability_distribution_B name parameters vals) \<notin> Inl ` InvalidParameter \<and>
   (n < 0 \<longrightarrow> binomial_B (PInt n) p vals = Inr (replicate (length vals) (Finite 0))) \<and>
   (flt high low \<longrightarrow> uniform_dist_B low high vals = Inr (replicate (length vals) (Finite 0))) \<and>
   (x \<in> set vals \<longrightarrow>
      uniform_dist_B (Finite (real_of_int x)) (Finite (real_of_int x)) vals = Inl ZeroDivisionError)"
proof -
  have a: "snd (get_probability_distribution_B name parameters vals) \<notin> Inl ` InvalidParameter"
    using valueerror_B [of name parameters vals] by (auto simp: InvalidParameter_def)
  have b: "n < 0 \<longrightarrow> binomial_B (PInt n) p vals = Inr (replicate (length vals) (Finite 0))"
    by (simp add: binomial_B_negative_n)
  have c: "flt high low \<longrightarrow> uniform_dist_B low high vals = Inr (replicate (length vals) (Finite 0))"
    by (simp add: uniform_dist_B_reversed)
  have d: "x \<in> set vals \<longrightarrow>
      uniform_dist_B (Finite (real_of_int x)) (Finite (real_of_int x)) vals = Inl ZeroDivisionError"
    unfolding uniform_dist_B_degenerate by auto
  show ?thesis by (rule conjI [OF a conjI [OF b conjI [OF c d]]])
qed

text \<open>
  Binomial with \<open>n = -3\<close> and uniform with \<open>low = 5\<close>, \<open>high = 1\<close> return zeros; uniform
  with \<open>low = high = 1\<close> divides by zero on \<open>[0, 1]\<close>. Out-of-range parameters raise no
  invalid-parameter error, but an evaluation with them need not complete: Poisson with
  \<open>mu = -2000\<close> ends in the \<^verbatim>\<open>OverflowError\<close> of \<^verbatim>\<open>math.exp\<close>.
\<close>

theorem no_parameter_validation_B_witness:
  "binomial_B (PInt (-3)) (Finite 2) [0, 1] = Inr [Finite 0, Finite 0] \<and>
   uniform_dist_B (Finite 5) (Finite 1) [0, 1] = Inr [Finite 0, Finite 0] \<and>
   uniform_dist_B (Finite 1) (Finite 1) [0, 1] = Inl ZeroDivisionError \<and>
   snd (get_probability_distribution_B ''poisson'' [''mu'' \<mapsto> PFloat (Finite (-2000))] [0])
     = Inl OverflowError \<and>
   Inl OverflowError \<notin> (Inl ` InvalidParameter :: (error + int list \<times> pyfloat list) set)"
proof -
  note t = no_parameter_validation_B [where vals = "[0, 1]" and n = "-3" and p = "Finite 2"
      and low = "Finite 5" and high = "Finite 1" and x = 1]
  have a: "binomial_B (PInt (-3)) (Finite 2) [0, 1] = Inr [Finite 0, Finite 0]"
    using t [THEN conjunct2, THEN conjunct1] by simp
  have b: "uniform_dist_B (Finite 5) (Finite 1) [0, 1] = Inr [Finite 0, Finite 0]"
    using t [THEN conjunct2, THEN conjunct2, THEN conjunct1] by simp
  have c: "uniform_dist_B (Finite 1) (Finite 1) [0, 1] = Inl ZeroDivisionError"
    using t [THEN conjunct2, THEN conjunct2, THEN conjunct2] by simp
  have d: "snd (get_probability_distribution_B ''poisson'' [''mu'' \<mapsto> PFloat (Finite (-2000))] [0])
     = Inl OverflowError"
    using exp_2000_overflows
    by (simp add: get_probability_distribution_B_def filter_values_def Let_def getitem_def
        poisson_dist_B_def)
  have e: "Inl OverflowError \<notin> (Inl ` InvalidParameter :: (error + int list \<times> pyfloat list) set)"
    using no_parameter_validation_B [where name = "''poisson''"
        and parameters = "[''mu'' \<mapsto> PFloat (Finite (-2000))]" and vals = "[0]", THEN conjunct1]
    unfolding d .
  show ?thesis by (rule conjI [OF a conjI [OF b conjI [OF c conjI [OF d e]]]])
qed

section \<open>Variant B: integers too large for a float\<close>

lemma comprehension_Inl_only:
  assumes "x \<in> set xs" "f x = Inl e" "\<And>y e'. f y = Inl e' \<Longrightarrow> e' = e"
  shows "comprehension f xs = Inl e"
  using assms(1)
proof (induction xs)
  case Nil
  then show ?case by simp
next
  case (Cons a xs)
  show ?case
  proof (cases "f a")
    case (Inl e')
    with assms(3) show ?thesis by auto
  next
    case (Inr y)
    with assms(2) Cons.prems have "x \<in> set xs" by auto
    with Cons.IH Inr show ?thesis by simp
  qed
qed

lemma choose_1040_520_overflows: "overflow_threshold \<le> int (1040 choose 520)"
proof -
  have "real_of_int overflow_threshold \<le> 4 ^ 520 / (2 * real 520)"
    by (simp add: overflow_threshold_def)
  also have "\<dots> \<le> real ((2 * 520) choose 520)"
    by (rule central_binomial_lower_bound) simp
  finally have "real_of_int overflow_threshold \<le> real_of_int (int (1040 choose 520))"
    by simp
  then show ?thesis by (simp only: of_int_le_iff)
qed

text \<open>
  C7. The specification has the binomial evaluator of Variant B return, for every
  \<open>n \<ge> 0\<close> and \<open>0 \<le> p \<le> 1\<close>, probabilities over \<open>0, \<dots>, n\<close> that sum to \<open>1\<close>. The formula
  multiplies the integer \<^verbatim>\<open>comb(n, x)\<close> by a float, and the conversion of the integer
  raises \<^verbatim>\<open>OverflowError\<close> once it is beyond the range of a float: with \<open>n = 1040\<close> and
  \<open>p = 0.5\<close> the evaluation over \<open>0, \<dots>, 1040\<close> returns no probabilities at all.
\<close>

theorem binomial_B_overflow:
  "binomial_B (PInt 1040) (Finite (1 / 2)) [0..1040] = Inl OverflowError"
  unfolding binomial_B_def
proof (rule comprehension_Inl_only [where x = 520])
  show "520 \<in> set [0..1040]" by simp
next
  have "float_of_int (int (1040 choose 520)) = Inl OverflowError"
    using choose_1040_520_overflows by (simp add: float_of_int_def)
  then show "(if 0 \<le> (520 :: int) \<and> fle (Finite (real_of_int 520)) (as_float (PInt 1040)) then
         (case PInt 1040 of
            PInt k \<Rightarrow>
              (case float_of_int (int (nat k choose nat 520)) of
                 Inl e \<Rightarrow> Inl e
               | Inr c \<Rightarrow> Inr (fmul (fmul c (fpow (Finite (1 / 2)) (nat 520)))
                                  (fpow (fsub (Finite 1) (Finite (1 / 2))) (nat (k - 520)))))
          | PFloat r \<Rightarrow> Inl TypeError)
       else Inr (Finite 0)) = Inl OverflowError"
    by simp
next
  fix y e'
  assume "(if 0 \<le> y \<and> fle (Finite (real_of_int y)) (as_float (PInt 1040)) then
         (case PInt 1040 of
            PInt k \<Rightarrow>
              (case float_of_int (int (nat k choose nat y)) of
                 Inl e \<Rightarrow> Inl e
               | Inr c \<Rightarrow> Inr (fmul (fmul c (fpow (Finite (1 / 2)) (nat y)))
                                  (fpow (fsub (Finite 1) (Finite (1 / 2))) (nat (k - y)))))
          | PFloat r \<Rightarrow> Inl TypeError)
       else Inr (Finite 0)) = Inl e'"
  then show "e' = OverflowError"
    by (auto simp: float_of_int_def split: if_splits sum.splits)
qed

lemma fact_171_overflows: "overflow_threshold \<le> fact 171"
  by (simp add: overflow_threshold_def fact_numeral)

lemma fact_170_converts: "(fact 170 :: int) < overflow_threshold"
  by (simp add: overflow_threshold_def fact_numeral)

text \<open>
  C8. The specification has the Poisson evaluator of Variant B with \<open>mu = 0\<close> return \<open>1\<close>
  for \<open>x = 0\<close> and \<open>0\<close> for every other integer \<open>x\<close>. The formula divides by the integer
  \<^verbatim>\<open>factorial(x)\<close>, and the conversion of \<open>171!\<close> raises \<^verbatim>\<open>OverflowError\<close>: at \<open>x = 171\<close>
  the evaluator returns nothing, where up to \<open>x = 170\<close> it returns what the
  specification says.
\<close>

theorem poisson_dist_B_overflow:
  "poisson_dist_B (Finite 0) [171] = Inl OverflowError \<and>
   poisson_dist_B (Finite 0) [-1, 0, 1, 170] = Inr [Finite 0, Finite 1, Finite 0, Finite 0]"
proof -
  have f171: "float_of_int (fact 171) = Inl OverflowError"
    using fact_171_overflows by (simp add: float_of_int_def)
  have f170: "float_of_int (fact 170) = Inr (Finite (real_of_int (fact 170)))"
    using fact_170_converts by (simp add: float_of_int_def)
  have f01: "float_of_int 1 = Inr (Finite 1)"
    by (simp add: float_of_int_def overflow_threshold_def)
  have n: "nat 171 = 171" "nat 170 = 170" by simp_all
  have t: "\<not> overflow_threshold \<le> 1" using overflow_threshold_large by simp
  have a: "poisson_dist_B (Finite 0) [171] = Inl OverflowError"
    by (simp add: poisson_dist_B_def t n f171)
  have b: "poisson_dist_B (Finite 0) [-1, 0, 1, 170] = Inr [Finite 0, Finite 1, Finite 0, Finite 0]"
    by (simp add: poisson_dist_B_def t n f170 f01 fpow_Finite fin_small)
  from a b show ?thesis by simp
qed


end
